theory Spec2Isabelle
  imports Main
begin

section \<open>JavaScript values the pages compute with\<close>

text \<open>
  Strings are \<^typ>\<open>string\<close>; one \<^typ>\<open>char\<close> stands for one code unit in the range
  0..255. The empty string is the only falsy string, and \<open>a || b\<close> on strings yields
  \<open>a\<close> unless \<open>a\<close> is empty.
\<close>

definition or_else :: "string \<Rightarrow> string \<Rightarrow> string" where
  "or_else a b = (if a \<noteq> [] then a else b)"

text \<open>
  \<open>String.prototype.trim\<close> removes white space and line terminators from both ends.
  In the range 0..255 these are TAB, LF, VT, FF, CR, SP and NBSP.
\<close>

definition js_whitespace :: "char \<Rightarrow> bool" where
  "js_whitespace c = ((of_char c :: nat) \<in> {9, 10, 11, 12, 13, 32, 160})"

definition trim :: "string \<Rightarrow> string" where
  "trim s = rev (dropWhile js_whitespace (rev (dropWhile js_whitespace s)))"

text \<open>
  Numbers are IEEE doubles. The pages only ever hold non-negative integers in them (a
  token's \<open>version\<close>, the segments of a semantic version), so a number is modelled by
  the \<^typ>\<open>nat\<close> it holds, and arithmetic rounds its exact result to the nearest double,
  ties to the even significand (53 bits). Results at or above \<open>2 ^ 1024\<close>, which
  JavaScript turns into \<open>Infinity\<close>, are outside this model.
\<close>

fun bit_length :: "nat \<Rightarrow> nat" where
  "bit_length n = (if n = 0 then 0 else Suc (bit_length (n div 2)))"

definition round_double :: "nat \<Rightarrow> nat" where
  "round_double n =
     (if n < 2 ^ 53 then n
      else let e = bit_length n - 53;
               q = n div 2 ^ e;
               r = n mod 2 ^ e;
               h = 2 ^ (e - 1)
           in if r < h \<or> (r = h \<and> even q) then q * 2 ^ e else (q + 1) * 2 ^ e)"

definition js_add :: "nat \<Rightarrow> nat \<Rightarrow> nat" where
  "js_add a b = round_double (a + b)"

section \<open>Data model (\<open>types/style-guide.ts\<close>)\<close>

text \<open>
  A token record is one of \<open>ColorScheme\<close>, \<open>Typography\<close>, \<open>Spacing\<close>,
  \<open>BorderRadius\<close>, \<open>Shadow\<close>, \<open>Animation\<close>. They share \<open>id\<close>, \<open>name\<close>,
  \<open>version\<close>, \<open>createdAt\<close>, \<open>updatedAt\<close>, \<open>createdBy\<close>; what lies between
  (\<open>scale\<close>, the colours, the font tables, ...) is the type parameter \<open>'p\<close>.
  Field names carry the prefix \<open>tok_\<close> because \<open>id\<close> is HOL's identity and record
  fields share one name space.
\<close>

record 'p token =
  tok_id :: string
  tok_name :: string
  tok_version :: nat
  tok_payload :: 'p
  tok_createdAt :: string
  tok_updatedAt :: string
  tok_createdBy :: string

text \<open>
  \<open>StyleGuideConfig\<close>, the record that holds the active selection of every category.
  The interface declares the six \<open>active...\<close> fields as \<open>string\<close>, but the pages
  also store \<open>null\<close> in them; \<open>None\<close> is \<open>null\<close>.
\<close>

record config =
  cfg_id :: string
  cfg_name :: string
  cfg_description :: string
  cfg_version :: string
  activeColorScheme :: "string option"
  activeTypography :: "string option"
  activeSpacing :: "string option"
  activeBorderRadius :: "string option"
  activeShadow :: "string option"
  activeAnimation :: "string option"
  cfg_customFeatures :: "(string \<times> bool) list"
  cfg_createdAt :: string
  cfg_updatedAt :: string
  cfg_createdBy :: string

datatype category = ColorScheme | Typography | Spacing | BorderRadius | Shadow | Animation

fun active_field :: "category \<Rightarrow> config \<Rightarrow> string option" where
  "active_field ColorScheme c = activeColorScheme c"
| "active_field Typography c = activeTypography c"
| "active_field Spacing c = activeSpacing c"
| "active_field BorderRadius c = activeBorderRadius c"
| "active_field Shadow c = activeShadow c"
| "active_field Animation c = activeAnimation c"

text \<open>\<open>{ ...config, activeSpacing: v }\<close> and its five siblings.\<close>

fun with_active :: "category \<Rightarrow> string option \<Rightarrow> config \<Rightarrow> config" where
  "with_active ColorScheme v c = c\<lparr>activeColorScheme := v\<rparr>"
| "with_active Typography v c = c\<lparr>activeTypography := v\<rparr>"
| "with_active Spacing v c = c\<lparr>activeSpacing := v\<rparr>"
| "with_active BorderRadius v c = c\<lparr>activeBorderRadius := v\<rparr>"
| "with_active Shadow v c = c\<lparr>activeShadow := v\<rparr>"
| "with_active Animation v c = c\<lparr>activeAnimation := v\<rparr>"

fun table_of :: "category \<Rightarrow> string" where
  "table_of ColorScheme = ''color_schemes''"
| "table_of Typography = ''typographies''"
| "table_of Spacing = ''spacings''"
| "table_of BorderRadius = ''border_radiuses''"
| "table_of Shadow = ''shadows''"
| "table_of Animation = ''animations''"

text \<open>The first argument each page passes to \<open>emitUpdate\<close>.\<close>

fun emit_type :: "category \<Rightarrow> string" where
  "emit_type ColorScheme = ''colorScheme''"
| "emit_type Typography = ''typography''"
| "emit_type Spacing = ''spacing''"
| "emit_type BorderRadius = ''borderRadius''"
| "emit_type Shadow = ''shadow''"
| "emit_type Animation = ''animation''"

text \<open>The words the pages build their messages from.\<close>

fun noun :: "category \<Rightarrow> string" where
  "noun ColorScheme = ''color scheme''"
| "noun Typography = ''typography''"
| "noun Spacing = ''spacing''"
| "noun BorderRadius = ''border radius''"
| "noun Shadow = ''shadow''"
| "noun Animation = ''animation''"

fun plural :: "category \<Rightarrow> string" where
  "plural ColorScheme = ''color schemes''"
| "plural Typography = ''typographies''"
| "plural Spacing = ''spacings''"
| "plural BorderRadius = ''border radiuses''"
| "plural Shadow = ''shadows''"
| "plural Animation = ''animations''"

definition load_failed :: "category \<Rightarrow> string" where
  "load_failed cat =
     (if cat = ColorScheme then ''Failed to load color schemes. Please try again.''
      else ''Failed to load '' @ noun cat @ '' settings. Please try again.'')"

definition delete_question :: "category \<Rightarrow> string" where
  "delete_question cat =
     (if cat = ColorScheme then ''Are you sure you want to delete this color scheme?''
      else ''Are you sure you want to delete this '' @ noun cat @ '' setting?'')"

definition delete_failed :: "category \<Rightarrow> string" where
  "delete_failed cat = ''Failed to delete '' @ noun cat @ ''. Please try again.''"

definition setActive_failed :: "category \<Rightarrow> string" where
  "setActive_failed cat = ''Failed to set active '' @ noun cat @ ''. Please try again.''"

definition save_failed :: "category \<Rightarrow> string" where
  "save_failed cat = ''Failed to save '' @ noun cat @ ''. Please try again.''"

section \<open>The persistence gateway\<close>

text \<open>
  Every gateway call is awaited. The awaited value is an object \<open>{ data, error }\<close>;
  the call sites that check it read \<open>error\<close> and throw it when it is set. So a call
  ends in one of three ways: it resolves without an error, it resolves with an error, or
  the awaited expression itself throws (the promise rejects, or the client is \<open>null\<close>
  because the service is not configured).
\<close>

datatype 'd response =
    Resolved_ok 'd
  | Resolved_error string
  | Rejected string

datatype 'p gw_call =
    SelectAll string
  | DeleteRow string string
  | UpdateConfigActive string category "string option"
  | UpdateToken string string "'p token"
  | InsertToken string "'p token"

section \<open>A token page and its editor\<close>

text \<open>
  The pages \<open>app/admin/{colors,typography,spacing,border-radius,animations}/page.tsx\<close>
  and the shadows page are the same code up to the names of the category; the model takes
  the category as a parameter. A handler is modelled by the list of effects it performs,
  in program order, as a function of the values its closure holds (the state at the
  render that created it) and of the answers of the gateway; \<open>run\<close> applies the
  effects to the state.

  The store \<open>useStyleGuideStore\<close> holds \<open>config\<close>, \<open>isRealTimeEnabled\<close> and,
  for every category, the list and the active record (the settings page also takes
  \<open>error\<close> from it); each of its setters is \<open>set({ field })\<close>, an assignment of
  the field it names. The other fields are \<open>useState\<close> cells of the page, of the
  editor and of the socket hook.
\<close>

record base =
  config :: "config option"
  error :: "string option"
  userId :: string

record 'p token_page = base +
  tokens :: "'p token list"
  activeToken :: "'p token option"
  isLoading :: bool
  isEditorOpen :: bool
  editingToken :: "'p token option"
  isConnected :: bool
  isRealTimeEnabled :: bool
  editorIsLoading :: bool
  errorMessage :: "string option"

datatype 'p effect =
    SetTokens "'p token list"
  | SetActiveToken "'p token option"
  | SetConfig "config option"
  | SetIsLoading bool
  | SetError "string option"
  | SetIsEditorOpen bool
  | SetEditorIsLoading bool
  | SetErrorMessage "string option"
  | Gateway "'p gw_call"
  | Confirm string
  | ConsoleError string
  | ConsoleLog string

fun apply_effect :: "'p token_page \<Rightarrow> 'p effect \<Rightarrow> 'p token_page" where
  "apply_effect st (SetTokens ts) = st\<lparr>tokens := ts\<rparr>"
| "apply_effect st (SetActiveToken a) = st\<lparr>activeToken := a\<rparr>"
| "apply_effect st (SetConfig c) = st\<lparr>config := c\<rparr>"
| "apply_effect st (SetIsLoading b) = st\<lparr>isLoading := b\<rparr>"
| "apply_effect st (SetError e) = st\<lparr>error := e\<rparr>"
| "apply_effect st (SetIsEditorOpen b) = st\<lparr>isEditorOpen := b\<rparr>"
| "apply_effect st (SetEditorIsLoading b) = st\<lparr>editorIsLoading := b\<rparr>"
| "apply_effect st (SetErrorMessage e) = st\<lparr>errorMessage := e\<rparr>"
| "apply_effect st (Gateway c) = st"
| "apply_effect st (Confirm q) = st"
| "apply_effect st (ConsoleError m) = st"
| "apply_effect st (ConsoleLog m) = st"

definition run :: "'p token_page \<Rightarrow> 'p effect list \<Rightarrow> 'p token_page" where
  "run st es = foldl apply_effect st es"

fun is_gateway :: "'p effect \<Rightarrow> bool" where
  "is_gateway (Gateway c) = True"
| "is_gateway e = False"

fun is_mutation :: "'p effect \<Rightarrow> bool" where
  "is_mutation (Gateway c) = False"
| "is_mutation (Confirm q) = False"
| "is_mutation (ConsoleError m) = False"
| "is_mutation (ConsoleLog m) = False"
| "is_mutation e = True"

fun is_SetTokens :: "'p effect \<Rightarrow> bool" where
  "is_SetTokens (SetTokens ts) = True"
| "is_SetTokens e = False"

fun is_SetActiveToken :: "'p effect \<Rightarrow> bool" where
  "is_SetActiveToken (SetActiveToken a) = True"
| "is_SetActiveToken e = False"

text \<open>
  The effects that change the Register: a new config in memory, or an update of one of the
  six \<open>active...\<close> columns of its row.
\<close>

fun touches_register :: "'p effect \<Rightarrow> bool" where
  "touches_register (SetConfig c) = True"
| "touches_register (Gateway (UpdateConfigActive i cat v)) = True"
| "touches_register e = False"

subsection \<open>\<open>hooks/useStyleGuideSocket.ts\<close>\<close>

text \<open>
  \<open>emitUpdate(type, action, data)\<close>. The annotations of \<open>type\<close> and \<open>action\<close>
  are unions of string literals that are erased at run time; the body never inspects the
  two strings, and the pages call it with \<open>borderRadius\<close>, \<open>shadow\<close>,
  \<open>animation\<close> and \<open>comment\<close> as with the literals the annotations list. So
  both are strings here. The third argument, \<open>data\<close>, is only passed on to
  \<open>console.log\<close>; the model keeps the message.
\<close>

definition emitUpdate :: "bool \<Rightarrow> bool \<Rightarrow> string \<Rightarrow> string \<Rightarrow> 'p effect list" where
  "emitUpdate connected enabled type action =
     (if \<not> connected \<or> \<not> enabled then []
      else [ConsoleLog (''Emitting update: '' @ type @ '' '' @ action)])"

definition emit :: "'p token_page \<Rightarrow> category \<Rightarrow> string \<Rightarrow> 'p effect list" where
  "emit st cat action = emitUpdate (isConnected st) (isRealTimeEnabled st) (emit_type cat) action"

subsection \<open>\<open>handleSetActive\<close>\<close>

definition handleSetActive ::
  "category \<Rightarrow> 'p token_page \<Rightarrow> unit response \<Rightarrow> 'p token \<Rightarrow> 'p effect list" where
  "handleSetActive cat st persist tok =
     [SetActiveToken (Some tok)] @
     (case config st of
        Some cfg \<Rightarrow>
          [SetConfig (Some (with_active cat (Some (tok_id tok)) cfg)),
           Gateway (UpdateConfigActive (cfg_id cfg) cat (Some (tok_id tok)))] @
          (case persist of
             Rejected err \<Rightarrow>
               [ConsoleError (''Error setting active '' @ noun cat @ '':''),
                SetError (Some (setActive_failed cat))]
           | _ \<Rightarrow> emit st cat ''setActive'')
      | None \<Rightarrow> emit st cat ''setActive'')"

subsection \<open>Loading the collection (\<open>fetchSpacings\<close> and its five siblings)\<close>

definition failed :: "string \<Rightarrow> string \<Rightarrow> 'p effect list" where
  "failed logged shown = [ConsoleError logged, SetError (Some shown)]"

text \<open>
  \<open>if (config?.activeSpacing)\<close> is false for no config, for \<open>null\<close> and for the
  empty string; \<open>data.find\<close> returns the first record with the id, if any.
\<close>

definition fetchTokens ::
  "category \<Rightarrow> 'p token_page \<Rightarrow> 'p token list response \<Rightarrow> 'p effect list" where
  "fetchTokens cat st answer =
     [SetIsLoading True, Gateway (SelectAll (table_of cat))] @
     (case answer of
        Resolved_ok data \<Rightarrow>
          [SetTokens data] @
          (case config st of
             None \<Rightarrow> []
           | Some cfg \<Rightarrow>
               (case active_field cat cfg of
                  None \<Rightarrow> []
                | Some a \<Rightarrow>
                    if a = [] then []
                    else (case find (\<lambda>t. tok_id t = a) data of
                            None \<Rightarrow> []
                          | Some active \<Rightarrow> [SetActiveToken (Some active)])))
      | _ \<Rightarrow> failed (''Error fetching '' @ plural cat @ '':'') (load_failed cat)) @
     [SetIsLoading False]"

subsection \<open>\<open>handleDelete\<close>\<close>

text \<open>
  \<open>answer\<close> is what the user says to \<open>confirm\<close>, \<open>deleted\<close> the gateway's
  answer to the delete, \<open>persist\<close> its answer to the update of the config row (awaited,
  its value dropped).
\<close>

definition handleDelete ::
  "category \<Rightarrow> 'p token_page \<Rightarrow> bool \<Rightarrow> unit response \<Rightarrow> unit response \<Rightarrow> string
     \<Rightarrow> 'p effect list" where
  "handleDelete cat st answer deleted persist i =
     [Confirm (delete_question cat)] @
     (if \<not> answer then []
      else
        [Gateway (DeleteRow (table_of cat) i)] @
        (case deleted of
           Resolved_ok u \<Rightarrow>
             [SetTokens (filter (\<lambda>t. tok_id t \<noteq> i) (tokens st))] @
             (if (case activeToken st of None \<Rightarrow> False | Some a \<Rightarrow> tok_id a = i) then
                [SetActiveToken None] @
                (case config st of
                   None \<Rightarrow> emit st cat ''remove''
                 | Some cfg \<Rightarrow>
                     if active_field cat cfg = Some i then
                       [SetConfig (Some (with_active cat None cfg)),
                        Gateway (UpdateConfigActive (cfg_id cfg) cat None)] @
                       (case persist of
                          Rejected err \<Rightarrow>
                            failed (''Error deleting '' @ noun cat @ '':'') (delete_failed cat)
                        | _ \<Rightarrow> emit st cat ''remove'')
                     else emit st cat ''remove'')
              else emit st cat ''remove'')
         | _ \<Rightarrow> failed (''Error deleting '' @ noun cat @ '':'') (delete_failed cat)))"

subsection \<open>\<open>handleSave\<close>, the editor's \<open>onSave\<close>\<close>

definition handleSave :: "category \<Rightarrow> 'p token_page \<Rightarrow> 'p token \<Rightarrow> 'p effect list" where
  "handleSave cat st tok =
     [SetIsEditorOpen False] @
     (case editingToken st of
        Some e \<Rightarrow>
          [SetTokens (map (\<lambda>s. if tok_id s = tok_id tok then tok else s) (tokens st))] @
          emit st cat ''update''
      | None \<Rightarrow>
          [SetTokens (tokens st @ [tok])] @
          emit st cat ''add'')"

subsection \<open>The editor's \<open>handleSubmit\<close>\<close>

text \<open>
  \<open>ColorSchemeEditor\<close>, \<open>TypographyEditor\<close>, \<open>SpacingEditor\<close>,
  \<open>BorderRadiusEditor\<close>, \<open>ShadowEditor\<close> and \<open>AnimationEditor\<close> are the same
  code up to the category's names and the payload fields of the form. The page renders
  the editor with \<open>spacing = editingSpacing\<close>, \<open>onSave = handleSave\<close> and its own
  \<open>userId\<close>. \<open>now\<close> is \<open>new Date().toISOString()\<close>, \<open>uuid\<close> what
  \<open>uuidv4()\<close> returns when it is called; \<open>nm\<close> and \<open>payload\<close> are the form's
  contents.
\<close>

definition updatedToken ::
  "'p token_page \<Rightarrow> string \<Rightarrow> string \<Rightarrow> string \<Rightarrow> 'p \<Rightarrow> 'p token" where
  "updatedToken st now uuid nm payload =
     \<lparr> tok_id = (case editingToken st of Some r \<Rightarrow> or_else (tok_id r) uuid | None \<Rightarrow> uuid),
       tok_name = nm,
       tok_version = (case editingToken st of Some r \<Rightarrow> js_add (tok_version r) 1 | None \<Rightarrow> 1),
       tok_payload = payload,
       tok_createdAt =
         (case editingToken st of Some r \<Rightarrow> or_else (tok_createdAt r) now | None \<Rightarrow> now),
       tok_updatedAt = now,
       tok_createdBy =
         (case editingToken st of Some r \<Rightarrow> or_else (tok_createdBy r) (userId st)
          | None \<Rightarrow> userId st) \<rparr>"

definition handleSubmit ::
  "category \<Rightarrow> 'p token_page \<Rightarrow> string \<Rightarrow> string \<Rightarrow> string \<Rightarrow> 'p \<Rightarrow> unit response
     \<Rightarrow> 'p effect list" where
  "handleSubmit cat st now uuid nm payload written =
     [SetEditorIsLoading True, SetErrorMessage None] @
     [Gateway (case editingToken st of
                 Some r \<Rightarrow> UpdateToken (table_of cat) (tok_id r) (updatedToken st now uuid nm payload)
               | None \<Rightarrow> InsertToken (table_of cat) (updatedToken st now uuid nm payload))] @
     (case written of
        Resolved_ok u \<Rightarrow> handleSave cat st (updatedToken st now uuid nm payload)
      | _ \<Rightarrow> [ConsoleError (''Error saving '' @ noun cat @ '':''),
              SetErrorMessage (Some (save_failed cat))]) @
     [SetEditorIsLoading False]"

section \<open>The settings page (\<open>app/admin/settings/page.tsx\<close>)\<close>

subsection \<open>Parsing and printing the semantic version\<close>

text \<open>\<open>version.split('.')\<close>: the pieces between the dots, at least one.\<close>

fun split_dot :: "string \<Rightarrow> string list" where
  "split_dot [] = [[]]"
| "split_dot (c # cs) =
     (if c = CHR ''.'' then [] # split_dot cs
      else (case split_dot cs of
              [] \<Rightarrow> [[c]]
            | s # ss \<Rightarrow> (c # s) # ss))"

text \<open>\<open>parts.join('.')\<close> on strings.\<close>

fun join_dot :: "string list \<Rightarrow> string" where
  "join_dot [] = []"
| "join_dot [s] = s"
| "join_dot (s # t # ss) = s @ ''.'' @ join_dot (t # ss)"

definition is_digit :: "char \<Rightarrow> bool" where
  "is_digit c = (48 \<le> (of_char c :: nat) \<and> (of_char c :: nat) \<le> 57)"

definition decimal_value :: "string \<Rightarrow> nat" where
  "decimal_value s = foldl (\<lambda>acc c. 10 * acc + ((of_char c :: nat) - 48)) 0 s"

text \<open>
  \<open>Number(s)\<close> for the strings this model covers: the empty string is \<open>0\<close>, and a
  string of decimal digits whose value is at most \<open>2 ^ 53\<close> is that value, exactly.
  \<open>None\<close> stands for every other string: larger digit strings (rounded by
  JavaScript), the other notations \<open>Number\<close> reads (signs, white space, fractions,
  exponents, \<open>0x\<close>, \<open>Infinity\<close>) and the strings it maps to \<open>NaN\<close>.
\<close>

definition js_Number :: "string \<Rightarrow> nat option" where
  "js_Number s =
     (if s = [] then Some 0
      else if list_all is_digit s \<and> decimal_value s \<le> 2 ^ 53 then Some (decimal_value s)
      else None)"

text \<open>
  \<open>String(n)\<close>, as \<open>join\<close> applies it: the decimal numeral without leading zeros,
  for the integers up to \<open>2 ^ 53\<close>; \<open>None\<close> above.
\<close>

fun decimal :: "nat \<Rightarrow> string" where
  "decimal n =
     (if n < 10 then [''0123456789'' ! n]
      else decimal (n div 10) @ [''0123456789'' ! (n mod 10)])"

declare decimal.simps [simp del]

definition js_toString :: "nat \<Rightarrow> string option" where
  "js_toString n = (if n \<le> 2 ^ 53 then Some (decimal n) else None)"

text \<open>
  \<open>const versionParts = version.split('.').map(Number); versionParts[2] += 1;
  const newVersion = versionParts.join('.')\<close>.
  With fewer than three parts, \<open>versionParts[2]\<close> is \<open>undefined\<close>, the sum is
  \<open>NaN\<close>, and the assignment lengthens the array; \<open>join\<close> prints a hole as the
  empty string. The result is \<open>None\<close> when a number involved is outside the model.
\<close>

definition bump_patch :: "string \<Rightarrow> string option" where
  "bump_patch v =
     (case those (map js_Number (split_dot v)) of
        None \<Rightarrow> None
      | Some versionParts \<Rightarrow>
          if length versionParts < 3 then
            (case those (map js_toString versionParts) of
               None \<Rightarrow> None
             | Some printed \<Rightarrow>
                 Some (join_dot (printed @ replicate (2 - length versionParts) [] @ [''NaN''])))
          else
            (case those (map js_toString
                           (versionParts[2 := js_add (versionParts ! 2) 1])) of
               None \<Rightarrow> None
             | Some printed \<Rightarrow> Some (join_dot printed)))"

subsection \<open>State, gateway calls and effects\<close>

record version_history =
  vh_id :: string
  vh_styleGuideId :: string
  vh_version :: string
  vh_changes :: string
  vh_snapshot :: config
  vh_createdAt :: string
  vh_createdBy :: string

text \<open>The row \<open>handleSaveSettings\<close> inserts into \<open>style_guide_configs\<close>.\<close>

record config_row =
  row_id :: string
  row_name :: string
  row_description :: string
  row_version :: string
  active_color_scheme :: "string option"
  active_typography :: "string option"
  active_spacing :: "string option"
  active_border_radius :: "string option"
  active_shadow :: "string option"
  active_animation :: "string option"
  custom_features :: "(string \<times> bool) list"
  created_at :: string
  updated_at :: string
  created_by :: string

text \<open>The row \<open>handleCreateNewVersion\<close> inserts into \<open>version_histories\<close>.\<close>

record version_row =
  vr_id :: string
  vr_style_guide_id :: string
  vr_version :: string
  vr_changes :: string
  vr_snapshot :: config
  vr_created_at :: string
  vr_created_by :: string

datatype settings_call =
    UpdateSettings string string string string "(string \<times> bool) list" string
  | InsertConfig config_row
  | InsertVersionHistory version_row
  | UpdateConfigVersion string string string

record settings_page = base +
  name :: string
  description :: string
  version :: string
  customFeatures :: "(string \<times> bool) list"
  versionHistory :: "version_history list"
  isVersionDialogOpen :: bool
  newVersionChanges :: string
  isSaving :: bool
  successMessage :: "string option"

datatype settings_effect =
    S_SetConfig "config option"
  | S_SetError "string option"
  | S_SetVersion string
  | S_SetVersionHistory "version_history list"
  | S_SetIsVersionDialogOpen bool
  | S_SetNewVersionChanges string
  | S_SetIsSaving bool
  | S_SetSuccessMessage "string option"
  | S_Gateway settings_call
  | S_ConsoleError string
  | S_ClearSuccessMessageAfter nat

fun apply_settings_effect :: "settings_page \<Rightarrow> settings_effect \<Rightarrow> settings_page" where
  "apply_settings_effect st (S_SetConfig c) = st\<lparr>config := c\<rparr>"
| "apply_settings_effect st (S_SetError e) = st\<lparr>error := e\<rparr>"
| "apply_settings_effect st (S_SetVersion v) = st\<lparr>version := v\<rparr>"
| "apply_settings_effect st (S_SetVersionHistory h) = st\<lparr>versionHistory := h\<rparr>"
| "apply_settings_effect st (S_SetIsVersionDialogOpen b) = st\<lparr>isVersionDialogOpen := b\<rparr>"
| "apply_settings_effect st (S_SetNewVersionChanges c) = st\<lparr>newVersionChanges := c\<rparr>"
| "apply_settings_effect st (S_SetIsSaving b) = st\<lparr>isSaving := b\<rparr>"
| "apply_settings_effect st (S_SetSuccessMessage m) = st\<lparr>successMessage := m\<rparr>"
| "apply_settings_effect st (S_Gateway c) = st"
| "apply_settings_effect st (S_ConsoleError m) = st"
| "apply_settings_effect st (S_ClearSuccessMessageAfter ms) = st"

definition run_settings :: "settings_page \<Rightarrow> settings_effect list \<Rightarrow> settings_page" where
  "run_settings st es = foldl apply_settings_effect st es"

fun gateway_calls :: "settings_effect list \<Rightarrow> settings_call list" where
  "gateway_calls [] = []"
| "gateway_calls (S_Gateway c # es) = c # gateway_calls es"
| "gateway_calls (e # es) = gateway_calls es"

text \<open>
  The effect that keeps \<open>name\<close>, \<open>description\<close>, \<open>version\<close> and
  \<open>customFeatures\<close> equal to the config's whenever the config changes; the two version
  inputs of the page are read-only.
\<close>

definition sync_form :: "settings_page \<Rightarrow> settings_page" where
  "sync_form st =
     (case config st of
        None \<Rightarrow> st
      | Some cfg \<Rightarrow> st\<lparr>name := cfg_name cfg, description := cfg_description cfg,
                        version := cfg_version cfg, customFeatures := cfg_customFeatures cfg\<rparr>)"

subsection \<open>\<open>handleSaveSettings\<close>\<close>

definition newConfig :: "settings_page \<Rightarrow> string \<Rightarrow> string \<Rightarrow> config" where
  "newConfig st now uuid =
     \<lparr> cfg_id = uuid,
       cfg_name = name st,
       cfg_description = description st,
       cfg_version = version st,
       activeColorScheme = Some [],
       activeTypography = Some [],
       activeSpacing = Some [],
       activeBorderRadius = Some [],
       activeShadow = Some [],
       activeAnimation = Some [],
       cfg_customFeatures = customFeatures st,
       cfg_createdAt = now,
       cfg_updatedAt = now,
       cfg_createdBy = userId st \<rparr>"

definition insertedRow :: "settings_page \<Rightarrow> string \<Rightarrow> string \<Rightarrow> config_row" where
  "insertedRow st now uuid =
     \<lparr> row_id = cfg_id (newConfig st now uuid),
       row_name = name st,
       row_description = description st,
       row_version = version st,
       active_color_scheme = None,
       active_typography = None,
       active_spacing = None,
       active_border_radius = None,
       active_shadow = None,
       active_animation = None,
       custom_features = customFeatures st,
       created_at = now,
       updated_at = now,
       created_by = userId st \<rparr>"

definition save_settings_failed :: "settings_effect list" where
  "save_settings_failed =
     [S_ConsoleError ''Error saving settings:'',
      S_SetError (Some ''Failed to save settings. Please try again.'')]"

definition handleSaveSettings ::
  "settings_page \<Rightarrow> string \<Rightarrow> string \<Rightarrow> unit response \<Rightarrow> settings_effect list" where
  "handleSaveSettings st now uuid written =
     (if trim (name st) = [] then
        [S_SetError (Some ''Please enter a name for the style guide.'')]
      else
        [S_SetIsSaving True, S_SetError None] @
        (case config st of
           Some cfg \<Rightarrow>
             [S_Gateway (UpdateSettings (cfg_id cfg) (name st) (description st) (version st)
                           (customFeatures st) now)] @
             (case written of
                Resolved_ok u \<Rightarrow>
                  [S_SetConfig (Some (cfg\<lparr>cfg_name := name st,
                                            cfg_description := description st,
                                            cfg_version := version st,
                                            cfg_customFeatures := customFeatures st,
                                            cfg_updatedAt := now\<rparr>)),
                   S_SetSuccessMessage (Some ''Settings saved successfully!''),
                   S_ClearSuccessMessageAfter 3000]
              | _ \<Rightarrow> save_settings_failed)
         | None \<Rightarrow>
             [S_Gateway (InsertConfig (insertedRow st now uuid))] @
             (case written of
                Resolved_ok u \<Rightarrow>
                  [S_SetConfig (Some (newConfig st now uuid)),
                   S_SetSuccessMessage (Some ''Settings created successfully!''),
                   S_ClearSuccessMessageAfter 3000]
              | _ \<Rightarrow> save_settings_failed)) @
        [S_SetIsSaving False])"

subsection \<open>\<open>handleCreateNewVersion\<close>\<close>

definition newVersionHistory ::
  "settings_page \<Rightarrow> config \<Rightarrow> string \<Rightarrow> string \<Rightarrow> string \<Rightarrow> version_history" where
  "newVersionHistory st cfg newVersion now uuid =
     \<lparr> vh_id = uuid,
       vh_styleGuideId = cfg_id cfg,
       vh_version = newVersion,
       vh_changes = newVersionChanges st,
       vh_snapshot = cfg,
       vh_createdAt = now,
       vh_createdBy = userId st \<rparr>"

definition versionRow :: "settings_page \<Rightarrow> version_history \<Rightarrow> string \<Rightarrow> version_row" where
  "versionRow st h now =
     \<lparr> vr_id = vh_id h,
       vr_style_guide_id = vh_styleGuideId h,
       vr_version = vh_version h,
       vr_changes = vh_changes h,
       vr_snapshot = vh_snapshot h,
       vr_created_at = now,
       vr_created_by = userId st \<rparr>"

definition create_version_failed :: "settings_effect list" where
  "create_version_failed =
     [S_ConsoleError ''Error creating new version:'',
      S_SetError (Some ''Failed to create new version. Please try again.'')]"

text \<open>
  \<open>inserted\<close> answers the insert into \<open>version_histories\<close>, \<open>updated\<close> the update
  of \<open>style_guide_configs\<close>. The result is \<open>None\<close> only where \<open>bump_patch\<close> is.
\<close>

definition handleCreateNewVersion ::
  "settings_page \<Rightarrow> string \<Rightarrow> string \<Rightarrow> unit response \<Rightarrow> unit response
     \<Rightarrow> settings_effect list option" where
  "handleCreateNewVersion st now uuid inserted updated =
     (if trim (newVersionChanges st) = [] then
        Some [S_SetError (Some ''Please enter changes for the new version.'')]
      else
        (case config st of
           None \<Rightarrow>
             Some ([S_SetIsSaving True, S_SetError None] @ create_version_failed @
                   [S_SetIsSaving False])
         | Some cfg \<Rightarrow>
             (case bump_patch (version st) of
                None \<Rightarrow> None
              | Some newVersion \<Rightarrow>
                  Some
                    ([S_SetIsSaving True, S_SetError None,
                      S_Gateway (InsertVersionHistory
                        (versionRow st (newVersionHistory st cfg newVersion now uuid) now))] @
                     (case inserted of
                        Resolved_ok u \<Rightarrow>
                          [S_Gateway (UpdateConfigVersion (cfg_id cfg) newVersion now)] @
                          (case updated of
                             Resolved_ok u' \<Rightarrow>
                               [S_SetConfig (Some (cfg\<lparr>cfg_version := newVersion,
                                                         cfg_updatedAt := now\<rparr>)),
                                S_SetVersion newVersion,
                                S_SetVersionHistory
                                  (newVersionHistory st cfg newVersion now uuid # versionHistory st),
                                S_SetNewVersionChanges [],
                                S_SetIsVersionDialogOpen False,
                                S_SetSuccessMessage (Some ''New version created successfully!''),
                                S_ClearSuccessMessageAfter 3000]
                           | _ \<Rightarrow> create_version_failed)
                      | _ \<Rightarrow> create_version_failed) @
                     [S_SetIsSaving False]))))"

section \<open>Concrete inputs\<close>

text \<open>A spacing token (its payload is the \<open>scale\<close>), and pages that hold it.\<close>

definition ex_token :: "(string \<times> string) list token" where
  "ex_token =
     \<lparr> tok_id = ''a'', tok_name = ''Default Scale'', tok_version = 1,
       tok_payload = [(''4'', ''1rem'')], tok_createdAt = ''2024-01-01T00:00:00.000Z'',
       tok_updatedAt = ''2024-01-01T00:00:00.000Z'', tok_createdBy = ''u1'' \<rparr>"

definition ex_config :: config where
  "ex_config =
     \<lparr> cfg_id = ''c1'', cfg_name = ''Guide'', cfg_description = [], cfg_version = ''1.0.0'',
       activeColorScheme = None, activeTypography = None, activeSpacing = Some ''a'',
       activeBorderRadius = None, activeShadow = None, activeAnimation = None,
       cfg_customFeatures = [], cfg_createdAt = ''2024-01-01T00:00:00.000Z'',
       cfg_updatedAt = ''2024-01-01T00:00:00.000Z'', cfg_createdBy = ''u1'' \<rparr>"

text \<open>No config loaded, nothing marked active.\<close>

definition ex_page :: "(string \<times> string) list token_page" where
  "ex_page =
     \<lparr> config = None, error = None, userId = ''u1'',
       tokens = [ex_token], activeToken = None, isLoading = False, isEditorOpen = False,
       editingToken = None, isConnected = False, isRealTimeEnabled = False,
       editorIsLoading = False, errorMessage = None \<rparr>"

text \<open>A config is loaded and selects no spacing.\<close>

definition ex_loaded :: "(string \<times> string) list token_page" where
  "ex_loaded = ex_page\<lparr>config := Some (ex_config\<lparr>activeSpacing := None\<rparr>)\<rparr>"

text \<open>The config selects the token \<open>a\<close>, but the page's active marker is \<open>null\<close>.\<close>

definition ex_stale :: "(string \<times> string) list token_page" where
  "ex_stale = ex_page\<lparr>config := Some ex_config\<rparr>"

text \<open>The config selects the token \<open>a\<close> and the page marks it active.\<close>

definition ex_active :: "(string \<times> string) list token_page" where
  "ex_active = ex_page\<lparr>config := Some ex_config, activeToken := Some ex_token\<rparr>"

text \<open>The config selects a token \<open>gone\<close> that the gateway no longer lists.\<close>

definition ex_dangling :: "(string \<times> string) list token_page" where
  "ex_dangling = ex_page\<lparr>config := Some (ex_config\<lparr>activeSpacing := Some ''gone''\<rparr>)\<rparr>"

text \<open>The editor is open on the token \<open>a\<close>.\<close>

definition ex_editing :: "(string \<times> string) list token_page" where
  "ex_editing = ex_page\<lparr>editingToken := Some ex_token, isEditorOpen := True\<rparr>"

text \<open>
  A token created while \<open>userId\<close> was still the empty string (its initial state), now
  edited by the user \<open>u2\<close>.
\<close>

definition ex_anon :: "(string \<times> string) list token" where
  "ex_anon = ex_token\<lparr>tok_createdBy := []\<rparr>"

definition ex_editing_anon :: "(string \<times> string) list token_page" where
  "ex_editing_anon =
     ex_page\<lparr>userId := ''u2'', tokens := [ex_anon], editingToken := Some ex_anon,
             isEditorOpen := True\<rparr>"

text \<open>The settings page with the version dialog open, and before the first save.\<close>

definition ex_settings :: settings_page where
  "ex_settings =
     \<lparr> config = Some ex_config, error = None, userId = ''u1'',
       name = ''Guide'', description = [], version = ''1.0.0'', customFeatures = [],
       versionHistory = [], isVersionDialogOpen = True, newVersionChanges = ''fix typo'',
       isSaving = False, successMessage = None \<rparr>"

definition ex_blank_changes :: settings_page where
  "ex_blank_changes = ex_settings\<lparr>newVersionChanges := '' ''\<rparr>"

definition ex_first_save :: settings_page where
  "ex_first_save =
     ex_settings\<lparr>config := None, isVersionDialogOpen := False, newVersionChanges := []\<rparr>"

section \<open>Properties\<close>

subsection \<open>Running effect lists\<close>

lemma run_Nil [simp]: "run s [] = s"
  by (simp add: run_def)

lemma run_Cons [simp]: "run s (e # es) = run (apply_effect s e) es"
  by (simp add: run_def)

lemma run_append [simp]: "run s (xs @ ys) = run (run s xs) ys"
  by (simp add: run_def)

lemma run_emit [simp]: "run s (emit st cat a) = s"
  by (simp add: emit_def emitUpdate_def)

lemma gateway_emit [simp]: "filter is_gateway (emit st cat a) = []"
  by (simp add: emit_def emitUpdate_def)

lemma touches_emit [simp]: "filter touches_register (emit st cat a) = []"
  by (simp add: emit_def emitUpdate_def)

lemma run_failed [simp]:
  "tokens (run s (failed l m)) = tokens s"
  "activeToken (run s (failed l m)) = activeToken s"
  "config (run s (failed l m)) = config s"
  "error (run s (failed l m)) = Some m"
  by (simp_all add: failed_def)

lemma filter_failed [simp]:
  "filter is_gateway (failed l m) = []"
  "filter touches_register (failed l m) = []"
  by (simp_all add: failed_def)

lemma active_with_active [simp]: "active_field cat (with_active cat v c) = v"
  by (cases cat) simp_all

lemma run_settings_Nil [simp]: "run_settings s [] = s"
  by (simp add: run_settings_def)

lemma run_settings_Cons [simp]:
  "run_settings s (e # es) = run_settings (apply_settings_effect s e) es"
  by (simp add: run_settings_def)

lemma run_settings_append [simp]:
  "run_settings s (xs @ ys) = run_settings (run_settings s xs) ys"
  by (simp add: run_settings_def)

lemma gateway_calls_append [simp]:
  "gateway_calls (xs @ ys) = gateway_calls xs @ gateway_calls ys"
  by (induction xs rule: gateway_calls.induct) simp_all

subsection \<open>Numbers\<close>

text \<open>Every integer up to \<open>2 ^ 53\<close> is a double; \<open>2 ^ 53 + 1\<close> is not.\<close>

lemma round_double_exact: "n \<le> 2 ^ 53 \<Longrightarrow> round_double n = n"
proof (cases "n < 2 ^ 53")
  case True
  then show ?thesis by (simp add: round_double_def)
next
  case False
  assume "n \<le> 2 ^ 53"
  with False have n: "n = 9007199254740992" by simp
  show ?thesis unfolding n round_double_def by (simp add: Let_def)
qed

lemma js_add_exact: "n < 2 ^ 53 \<Longrightarrow> js_add n 1 = n + 1"
  by (simp add: js_add_def round_double_exact)

lemma js_add_exact_Suc: "n < 9007199254740992 \<Longrightarrow> js_add n (Suc 0) = Suc n"
  using js_add_exact [of n] by simp

lemma js_add_saturates: "js_add 9007199254740992 1 = 9007199254740992"
  by (simp add: js_add_def round_double_def Let_def)

subsection \<open>The editor: create and update\<close>

lemma or_else_nonempty [simp]: "a \<noteq> [] \<Longrightarrow> or_else a b = a"
  by (simp add: or_else_def)

lemma tokens_handleSave:
  "tokens (run s (handleSave cat st tok)) =
     (case editingToken st of
        Some e \<Rightarrow> map (\<lambda>x. if tok_id x = tok_id tok then tok else x) (tokens st)
      | None \<Rightarrow> tokens st @ [tok])"
  by (simp add: handleSave_def split: option.splits)

lemma gateway_handleSave [simp]: "filter is_gateway (handleSave cat st tok) = []"
  by (simp add: handleSave_def split: option.splits)

text \<open>
  C1, as the code has it. Let \<open>r\<close> be the record the editor is open on, with non-empty
  \<open>id\<close>, \<open>createdAt\<close> and \<open>createdBy\<close> and a version that is a non-negative
  integer below \<open>2 ^ 53\<close>. When the
  gateway accepts the update, the record \<open>u\<close> that is sent to the gateway (for the row
  with \<open>r\<close>'s id) and that replaces every record with \<open>r\<close>'s id in the in-memory
  collection has version \<open>r.version + 1\<close>, the \<open>id\<close>, \<open>createdAt\<close> and
  \<open>createdBy\<close> of \<open>r\<close>, and \<open>updatedAt = now\<close>. This holds for every category.
\<close>

theorem update_bumps_version_keeps_identity:
  assumes "editingToken st = Some r"
    and "tok_id r \<noteq> []" and "tok_createdAt r \<noteq> []" and "tok_createdBy r \<noteq> []"
    and "tok_version r < 2 ^ 53"
    and "u = updatedToken st now uuid nm payload"
    and "es = handleSubmit cat st now uuid nm payload (Resolved_ok ())"
  shows "filter is_gateway es = [Gateway (UpdateToken (table_of cat) (tok_id r) u)]
       \<and> tokens (run st es) = map (\<lambda>x. if tok_id x = tok_id r then u else x) (tokens st)
       \<and> tok_version u = tok_version r + 1
       \<and> tok_id u = tok_id r
       \<and> tok_createdAt u = tok_createdAt r
       \<and> tok_createdBy u = tok_createdBy r
       \<and> tok_updatedAt u = now"
proof -
  have u: "tok_version u = tok_version r + 1" "tok_id u = tok_id r"
    "tok_createdAt u = tok_createdAt r" "tok_createdBy u = tok_createdBy r"
    "tok_updatedAt u = now"
    using assms by (simp_all add: updatedToken_def js_add_exact_Suc)
  have g: "filter is_gateway es = [Gateway (UpdateToken (table_of cat) (tok_id r) u)]"
    using assms by (simp add: handleSubmit_def)
  have t: "tokens (run st es) = map (\<lambda>x. if tok_id x = tok_id r then u else x) (tokens st)"
    using assms(1,6,7) u(2) by (simp add: handleSubmit_def tokens_handleSave)
  from u g t show ?thesis by simp
qed

text \<open>
  Witness for C1: scenario 2 of the spec. The token \<open>a\<close> at version 1 is edited; the stored
  record has version 2, the same id and the same creator.
\<close>

theorem update_bumps_version_keeps_identity_witness:
  "editingToken ex_editing = Some ex_token
   \<and> tok_id ex_token \<noteq> [] \<and> tok_createdAt ex_token \<noteq> [] \<and> tok_createdBy ex_token \<noteq> []
   \<and> tok_version ex_token < 2 ^ 53
   \<and> map tok_version (tokens (run ex_editing
        (handleSubmit Spacing ex_editing ''2024-02-02T00:00:00.000Z'' ''fresh''
           ''Default Scale'' [(''4'', ''1.5rem'')] (Resolved_ok ())))) = [2]
   \<and> map tok_id (tokens (run ex_editing
        (handleSubmit Spacing ex_editing ''2024-02-02T00:00:00.000Z'' ''fresh''
           ''Default Scale'' [(''4'', ''1.5rem'')] (Resolved_ok ())))) = [''a'']
   \<and> map tok_createdBy (tokens (run ex_editing
        (handleSubmit Spacing ex_editing ''2024-02-02T00:00:00.000Z'' ''fresh''
           ''Default Scale'' [(''4'', ''1.5rem'')] (Resolved_ok ())))) = [''u1'']"
  using update_bumps_version_keeps_identity
    [where st = ex_editing and r = ex_token and cat = Spacing
       and now = "''2024-02-02T00:00:00.000Z''" and uuid = "''fresh''"
       and nm = "''Default Scale''" and payload = "[(''4'', ''1.5rem'')]", OF _ _ _ _ _ refl refl]
  by (simp add: ex_editing_def ex_page_def ex_token_def)

text \<open>
  C1 as the spec states it fails for a record whose \<open>createdBy\<close> is the empty string:
  \<open>spacing?.createdBy || userId\<close> then takes the acting user, so the stored record's
  \<open>createdBy\<close> changes from \<open>''\<close> to \<open>u2\<close>.
\<close>

theorem update_bumps_version_keeps_identity_counterexample:
  "map tok_createdBy (tokens ex_editing_anon) = [[]]
   \<and> map tok_createdBy (tokens (run ex_editing_anon
        (handleSubmit Spacing ex_editing_anon ''2024-02-02T00:00:00.000Z'' ''fresh''
           ''Default Scale'' [(''4'', ''1.5rem'')] (Resolved_ok ())))) = [''u2'']"
  by (simp add: ex_editing_anon_def ex_anon_def ex_page_def ex_token_def handleSubmit_def
        handleSave_def updatedToken_def or_else_def emit_def emitUpdate_def)

text \<open>The version of a record at \<open>2 ^ 53\<close> is not incremented either.\<close>

lemma update_version_saturates:
  "editingToken st = Some r \<Longrightarrow> tok_version r = 9007199254740992 \<Longrightarrow>
   tok_version (updatedToken st now uuid nm payload) = tok_version r"
  by (simp add: updatedToken_def js_add_def round_double_def Let_def)

text \<open>Scenario 1 of the spec: a created record has version 1.\<close>

lemma create_version_one:
  "editingToken st = None \<Longrightarrow>
   tok_version (updatedToken st now uuid nm payload) = 1
   \<and> tok_id (updatedToken st now uuid nm payload) = uuid
   \<and> tok_createdBy (updatedToken st now uuid nm payload) = userId st"
  by (simp add: updatedToken_def)

text \<open>
  C4. In \<open>handleSubmit\<close>, for a create as for an update, nothing but the editor's
  \<open>isLoading\<close> and \<open>errorMessage\<close> is set before the gateway write, and the write is
  the only gateway call. When the write does not resolve without error (it resolves with
  an error, or throws), the in-memory collection is what it was, no effect sets it, and
  the editor shows its error message.
\<close>

theorem submit_writes_before_mutating:
  assumes "es = handleSubmit cat st now uuid nm payload written"
  shows "takeWhile (\<lambda>e. \<not> is_gateway e) es = [SetEditorIsLoading True, SetErrorMessage None]
       \<and> filter is_gateway es =
           [Gateway (case editingToken st of
                       Some r \<Rightarrow>
                         UpdateToken (table_of cat) (tok_id r) (updatedToken st now uuid nm payload)
                     | None \<Rightarrow>
                         InsertToken (table_of cat) (updatedToken st now uuid nm payload))]
       \<and> (written \<noteq> Resolved_ok () \<longrightarrow>
            tokens (run st es) = tokens st
            \<and> filter is_SetTokens es = []
            \<and> errorMessage (run st es) = Some (save_failed cat))"
  using assms by (cases written) (simp_all add: handleSubmit_def)

text \<open>
  Witness for C4: the update of the token \<open>a\<close> is answered with an error; the collection
  still holds the old record and the editor shows the message.
\<close>

theorem submit_writes_before_mutating_witness:
  "Resolved_error ''permission denied'' \<noteq> Resolved_ok ()
   \<and> tokens (run ex_editing
        (handleSubmit Spacing ex_editing ''2024-02-02T00:00:00.000Z'' ''fresh''
           ''Default Scale'' [(''4'', ''1.5rem'')] (Resolved_error ''permission denied'')))
       = [ex_token]
   \<and> errorMessage (run ex_editing
        (handleSubmit Spacing ex_editing ''2024-02-02T00:00:00.000Z'' ''fresh''
           ''Default Scale'' [(''4'', ''1.5rem'')] (Resolved_error ''permission denied'')))
       = Some ''Failed to save spacing. Please try again.''"
  using submit_writes_before_mutating
    [where st = ex_editing and cat = Spacing and written = "Resolved_error ''permission denied''"
       and now = "''2024-02-02T00:00:00.000Z''" and uuid = "''fresh''"
       and nm = "''Default Scale''" and payload = "[(''4'', ''1.5rem'')]", OF refl]
  by (simp add: ex_editing_def ex_page_def save_failed_def)

subsection \<open>\<open>setActive\<close>\<close>

text \<open>
  With a config loaded, the marker and the config copy in memory are set before the
  gateway is called, whatever the gateway answers.
\<close>

lemma setActive_memory_before_persist:
  assumes "config st = Some cfg"
  shows "take 3 (handleSetActive cat st persist tok) =
     [SetActiveToken (Some tok),
      SetConfig (Some (with_active cat (Some (tok_id tok)) cfg)),
      Gateway (UpdateConfigActive (cfg_id cfg) cat (Some (tok_id tok)))]"
  using assms by (simp add: handleSetActive_def)

text \<open>A persist that throws is surfaced, and the marker stays on the token.\<close>

lemma setActive_rejected_surfaces:
  assumes "config st = Some cfg"
  shows "error (run st (handleSetActive cat st (Rejected e) tok)) = Some (setActive_failed cat)
       \<and> activeToken (run st (handleSetActive cat st (Rejected e) tok)) = Some tok
       \<and> config (run st (handleSetActive cat st (Rejected e) tok))
           = Some (with_active cat (Some (tok_id tok)) cfg)"
  using assms by (simp add: handleSetActive_def)

text \<open>
  A persist that resolves with an error is not: the awaited value is dropped, so the
  handler goes on as after a success and \<open>error\<close> keeps the value it had.
\<close>

lemma setActive_resolved_error_silent:
  assumes "config st = Some cfg"
  shows "handleSetActive cat st (Resolved_error e) tok = handleSetActive cat st (Resolved_ok ()) tok
       \<and> error (run st (handleSetActive cat st (Resolved_error e) tok)) = error st
       \<and> activeToken (run st (handleSetActive cat st (Resolved_error e) tok)) = Some tok"
  using assms by (simp add: handleSetActive_def)

text \<open>
  C2 at a failing input. A config is loaded, no error is shown, and the update of the
  config row resolves with \<open>{ error }\<close>. The active marker holds the token, as C2 says,
  but no error message is surfaced: \<open>error\<close> is still \<open>null\<close>.
\<close>

theorem setActive_persist_error_not_surfaced:
  "error ex_loaded = None
   \<and> error (run ex_loaded
        (handleSetActive Spacing ex_loaded (Resolved_error ''permission denied'') ex_token)) = None
   \<and> activeToken (run ex_loaded
        (handleSetActive Spacing ex_loaded (Resolved_error ''permission denied'') ex_token))
       = Some ex_token"
  by (simp add: ex_loaded_def ex_page_def handleSetActive_def)

text \<open>
  C5, as the code has it. When no config is loaded, \<open>handleSetActive\<close> makes no gateway
  call and leaves the config absent (no Register is created), but it does set the
  in-memory active marker to the record it was given: \<open>setActiveSpacing(spacing)\<close> runs
  before the test \<open>if (config)\<close>.
\<close>

theorem setActive_without_register:
  assumes "config st = None"
  shows "config (run st (handleSetActive cat st persist tok)) = None
       \<and> filter is_gateway (handleSetActive cat st persist tok) = []
       \<and> activeToken (run st (handleSetActive cat st persist tok)) = Some tok"
  using assms by (simp add: handleSetActive_def)

text \<open>Witness for C5: the page without a config.\<close>

theorem setActive_without_register_witness:
  "config ex_page = None
   \<and> config (run ex_page (handleSetActive Spacing ex_page (Resolved_ok ()) ex_token)) = None
   \<and> filter is_gateway (handleSetActive Spacing ex_page (Resolved_ok ()) ex_token) = []
   \<and> activeToken (run ex_page (handleSetActive Spacing ex_page (Resolved_ok ()) ex_token))
       = Some ex_token"
  using setActive_without_register [of ex_page Spacing "Resolved_ok ()" ex_token]
  by (simp add: ex_page_def)

text \<open>
  C5 as the spec states it (the in-memory active state is not changed when no config
  exists) fails: the marker was \<open>null\<close> and holds the token afterwards.
\<close>

theorem setActive_without_register_counterexample:
  "activeToken (run ex_page (handleSetActive Spacing ex_page (Resolved_ok ()) ex_token))
     \<noteq> activeToken ex_page"
  by (simp add: ex_page_def handleSetActive_def)

subsection \<open>\<open>remove\<close>\<close>

text \<open>
  C3, as the code has it. The user confirms, the gateway delete resolves without error,
  and the record is both the page's active marker and the id the config holds for the
  category. Then the record leaves the in-memory collection, the marker becomes
  \<open>null\<close>, the config in memory gets \<open>null\<close> in the category's field, and this is
  persisted via the gateway: after the delete one more gateway call is made, the update
  that sets this field to \<open>null\<close> in the config's row.
\<close>

theorem delete_active_clears_register:
  assumes "activeToken st = Some a" and "tok_id a = i"
    and "config st = Some cfg" and "active_field cat cfg = Some i"
    and "es = handleDelete cat st True (Resolved_ok ()) persist i"
  shows "tokens (run st es) = filter (\<lambda>t. tok_id t \<noteq> i) (tokens st)
       \<and> activeToken (run st es) = None
       \<and> config (run st es) = Some (with_active cat None cfg)
       \<and> active_field cat (with_active cat None cfg) = None
       \<and> filter is_gateway es =
           [Gateway (DeleteRow (table_of cat) i),
            Gateway (UpdateConfigActive (cfg_id cfg) cat None)]"
  using assms by (cases persist) (simp_all add: handleDelete_def)

text \<open>Witness for C3: scenario 4 of the spec, the active token \<open>a\<close> is deleted.\<close>

theorem delete_active_clears_register_witness:
  "activeToken ex_active = Some ex_token \<and> tok_id ex_token = ''a''
   \<and> config ex_active = Some ex_config \<and> active_field Spacing ex_config = Some ''a''
   \<and> tokens (run ex_active
        (handleDelete Spacing ex_active True (Resolved_ok ()) (Resolved_ok ()) ''a'')) = []
   \<and> activeToken (run ex_active
        (handleDelete Spacing ex_active True (Resolved_ok ()) (Resolved_ok ()) ''a'')) = None
   \<and> map_option activeSpacing (config (run ex_active
        (handleDelete Spacing ex_active True (Resolved_ok ()) (Resolved_ok ()) ''a'')))
       = Some None"
  using delete_active_clears_register
    [where st = ex_active and a = ex_token and i = "''a''" and cfg = ex_config
       and cat = Spacing and persist = "Resolved_ok ()", OF _ _ _ _ refl]
  by (simp add: ex_active_def ex_page_def ex_token_def ex_config_def)

text \<open>
  C3 as the spec states it fails when the config holds the id but the page's marker does
  not: the delete succeeds and the config still holds \<open>a\<close>.
\<close>

theorem delete_active_clears_register_counterexample:
  "map_option activeSpacing (config ex_stale) = Some (Some ''a'')
   \<and> map_option activeSpacing (config (run ex_stale
        (handleDelete Spacing ex_stale True (Resolved_ok ()) (Resolved_ok ()) ''a'')))
       = Some (Some ''a'')"
  by (simp add: ex_stale_def ex_page_def ex_config_def handleDelete_def)

text \<open>
  C10. Whatever the inputs of \<open>handleDelete\<close>, an effect that touches the Register (a
  new config in memory, an update of the category's column) occurs only if the page's
  marker has the id and the config's field holds it. And when the config's field holds
  the id but the marker is \<open>null\<close> or another record, a confirmed delete that the
  gateway accepts removes the record from memory, shows no error, makes no other gateway
  call, and leaves the config as it was, the deleted id still in it.
\<close>

theorem delete_clears_register_only_when_marked:
  assumes "es = handleDelete cat st answer deleted persist i"
  shows "(filter touches_register es \<noteq> [] \<longrightarrow>
            (\<exists>a c. activeToken st = Some a \<and> tok_id a = i \<and> config st = Some c
                   \<and> active_field cat c = Some i))
       \<and> (answer \<and> deleted = Resolved_ok () \<and> config st = Some cfg
            \<and> active_field cat cfg = Some i
            \<and> (case activeToken st of None \<Rightarrow> True | Some a \<Rightarrow> tok_id a \<noteq> i) \<longrightarrow>
            tokens (run st es) = filter (\<lambda>t. tok_id t \<noteq> i) (tokens st)
            \<and> config (run st es) = Some cfg
            \<and> error (run st es) = error st
            \<and> filter is_gateway es = [Gateway (DeleteRow (table_of cat) i)])"
  using assms
  by (auto simp add: handleDelete_def split: response.splits option.splits if_splits)

text \<open>
  Witness for C10: the config selects \<open>a\<close>, the marker is \<open>null\<close>, and \<open>a\<close> is
  deleted; the config keeps \<open>a\<close>.
\<close>

theorem delete_clears_register_only_when_marked_witness:
  "config ex_stale = Some ex_config \<and> active_field Spacing ex_config = Some ''a''
   \<and> activeToken ex_stale = None
   \<and> tokens (run ex_stale
        (handleDelete Spacing ex_stale True (Resolved_ok ()) (Resolved_ok ()) ''a'')) = []
   \<and> config (run ex_stale
        (handleDelete Spacing ex_stale True (Resolved_ok ()) (Resolved_ok ()) ''a''))
       = Some ex_config
   \<and> filter is_gateway
        (handleDelete Spacing ex_stale True (Resolved_ok ()) (Resolved_ok ()) ''a'')
       = [Gateway (DeleteRow ''spacings'' ''a'')]"
  using delete_clears_register_only_when_marked
    [where st = ex_stale and cat = Spacing and answer = True and deleted = "Resolved_ok ()"
       and persist = "Resolved_ok ()" and i = "''a''" and cfg = ex_config, OF refl]
  by (simp add: ex_stale_def ex_page_def ex_token_def ex_config_def)

subsection \<open>\<open>load\<close>\<close>

text \<open>
  C6. The config holds for the category an id that no record of the loaded list has.
  Then the load stores the list and nothing else: the active marker is not set (it keeps
  the value it had), the config in memory is the same, and the only gateway call is the
  select; no effect touches the Register.
\<close>

theorem load_keeps_stale_reference:
  assumes "config st = Some cfg" and "active_field cat cfg = Some r"
    and "r \<notin> tok_id ` set data"
    and "es = fetchTokens cat st (Resolved_ok data)"
  shows "tokens (run st es) = data
       \<and> activeToken (run st es) = activeToken st
       \<and> filter is_SetActiveToken es = []
       \<and> config (run st es) = Some cfg
       \<and> filter touches_register es = []
       \<and> filter is_gateway es = [Gateway (SelectAll (table_of cat))]"
proof -
  have "find (\<lambda>t. tok_id t = r) data = None"
    using assms(3) by (auto simp add: find_None_iff)
  then show ?thesis using assms by (simp add: fetchTokens_def)
qed

text \<open>Witness for C6: the config selects \<open>gone\<close>, the gateway lists only \<open>a\<close>.\<close>

theorem load_keeps_stale_reference_witness:
  "map_option activeSpacing (config ex_dangling) = Some (Some ''gone'')
   \<and> ''gone'' \<notin> tok_id ` set [ex_token]
   \<and> activeToken (run ex_dangling (fetchTokens Spacing ex_dangling (Resolved_ok [ex_token])))
       = None
   \<and> map_option activeSpacing
        (config (run ex_dangling (fetchTokens Spacing ex_dangling (Resolved_ok [ex_token]))))
       = Some (Some ''gone'')
   \<and> filter is_gateway (fetchTokens Spacing ex_dangling (Resolved_ok [ex_token]))
       = [Gateway (SelectAll ''spacings'')]"
  using load_keeps_stale_reference
    [where st = ex_dangling and cat = Spacing and r = "''gone''" and data = "[ex_token]"
       and cfg = "ex_config\<lparr>activeSpacing := Some ''gone''\<rparr>", OF _ _ _ refl]
  by (simp add: ex_dangling_def ex_page_def ex_token_def ex_config_def)

text \<open>When the id is in the list, the load does set the marker.\<close>

lemma load_sets_marker:
  "activeToken (run ex_stale (fetchTokens Spacing ex_stale (Resolved_ok [ex_token])))
     = Some ex_token"
  by (simp add: fetchTokens_def ex_stale_def ex_page_def ex_config_def ex_token_def)

subsection \<open>The change notifier\<close>

text \<open>
  C8. \<open>emitUpdate\<close> takes every type and every action, among them the nine categories
  \<open>colorScheme\<close>, \<open>typography\<close>, \<open>component\<close>, \<open>spacing\<close>, \<open>image\<close>,
  \<open>feedback\<close>, \<open>borderRadius\<close>, \<open>shadow\<close>, \<open>animation\<close> and the five actions
  \<open>add\<close>, \<open>update\<close>, \<open>remove\<close>, \<open>setActive\<close>, \<open>comment\<close>, and treats
  them alike: when the socket is connected and real-time is enabled it writes one line to
  the console, otherwise it does nothing. In no case does it perform a state mutation or
  a gateway call.
\<close>

theorem emitUpdate_no_op:
  "(emitUpdate connected enabled type action :: 'p effect list) =
     (if connected \<and> enabled
      then [ConsoleLog (''Emitting update: '' @ type @ '' '' @ action)] else [])
   \<and> filter is_mutation (emitUpdate connected enabled type action :: 'p effect list) = []
   \<and> filter is_gateway (emitUpdate connected enabled type action :: 'p effect list) = []"
  by (simp add: emitUpdate_def)

text \<open>
  Witness for C8: \<open>emitUpdate('borderRadius', 'remove', id)\<close> of the border radius page,
  connected and enabled, and \<open>emitUpdate('feedback', 'comment', ...)\<close> of the feedback
  page, not connected.
\<close>

theorem emitUpdate_no_op_witness:
  "(emitUpdate True True ''borderRadius'' ''remove'' :: (string \<times> string) list effect list)
     = [ConsoleLog ''Emitting update: borderRadius remove'']
   \<and> filter is_mutation
        (emitUpdate True True ''borderRadius'' ''remove'' :: (string \<times> string) list effect list)
       = []
   \<and> filter is_gateway
        (emitUpdate True True ''borderRadius'' ''remove'' :: (string \<times> string) list effect list)
       = []
   \<and> (emitUpdate False True ''feedback'' ''comment'' :: (string \<times> string) list effect list)
       = []"
  using emitUpdate_no_op
    [where type = "''borderRadius''" and action = "''remove''" and connected = True
       and enabled = True and 'p = "(string \<times> string) list"]
    emitUpdate_no_op
    [where type = "''feedback''" and action = "''comment''" and connected = False
       and enabled = True and 'p = "(string \<times> string) list"]
  by simp

text \<open>Inside a handler, the call leaves the page's state as it is.\<close>

lemma emit_no_op:
  "run s (emit st cat action) = s
   \<and> filter is_mutation (emit st cat action) = []
   \<and> filter is_gateway (emit st cat action) = []"
  by (simp add: emit_def emitUpdate_def)

subsection \<open>Settings: the first save\<close>

text \<open>
  C9. No config exists and the name is not blank (a blank name is refused before any
  gateway call). Then the save makes one gateway call, the insert of a row whose six
  \<open>active_...\<close> columns are \<open>null\<close>; and the config put in memory, which happens
  exactly when the insert resolves without error, has the empty string in its six
  \<open>active...\<close> fields.
\<close>

theorem first_save_null_row_empty_memory:
  assumes "config st = None" and "trim (name st) \<noteq> []"
    and "es = handleSaveSettings st now uuid written"
  shows "gateway_calls es = [InsertConfig (insertedRow st now uuid)]
       \<and> active_color_scheme (insertedRow st now uuid) = None
       \<and> active_typography (insertedRow st now uuid) = None
       \<and> active_spacing (insertedRow st now uuid) = None
       \<and> active_border_radius (insertedRow st now uuid) = None
       \<and> active_shadow (insertedRow st now uuid) = None
       \<and> active_animation (insertedRow st now uuid) = None
       \<and> config (run_settings st es) =
           (if written = Resolved_ok () then Some (newConfig st now uuid) else None)
       \<and> activeColorScheme (newConfig st now uuid) = Some []
       \<and> activeTypography (newConfig st now uuid) = Some []
       \<and> activeSpacing (newConfig st now uuid) = Some []
       \<and> activeBorderRadius (newConfig st now uuid) = Some []
       \<and> activeShadow (newConfig st now uuid) = Some []
       \<and> activeAnimation (newConfig st now uuid) = Some []"
proof -
  have rows: "active_color_scheme (insertedRow st now uuid) = None"
    "active_typography (insertedRow st now uuid) = None"
    "active_spacing (insertedRow st now uuid) = None"
    "active_border_radius (insertedRow st now uuid) = None"
    "active_shadow (insertedRow st now uuid) = None"
    "active_animation (insertedRow st now uuid) = None"
    by (simp_all add: insertedRow_def)
  have mem: "activeColorScheme (newConfig st now uuid) = Some []"
    "activeTypography (newConfig st now uuid) = Some []"
    "activeSpacing (newConfig st now uuid) = Some []"
    "activeBorderRadius (newConfig st now uuid) = Some []"
    "activeShadow (newConfig st now uuid) = Some []"
    "activeAnimation (newConfig st now uuid) = Some []"
    by (simp_all add: newConfig_def)
  have calls: "gateway_calls es = [InsertConfig (insertedRow st now uuid)]"
    using assms by (cases written) (simp_all add: handleSaveSettings_def save_settings_failed_def)
  have cfg: "config (run_settings st es) =
      (if written = Resolved_ok () then Some (newConfig st now uuid) else None)"
    using assms by (cases written) (simp_all add: handleSaveSettings_def save_settings_failed_def)
  from rows mem calls cfg show ?thesis by simp
qed

text \<open>Witness for C9: the first save of a guide named \<open>Guide\<close>.\<close>

theorem first_save_null_row_empty_memory_witness:
  "config ex_first_save = None \<and> trim (name ex_first_save) \<noteq> []
   \<and> map active_spacing
        (map (\<lambda>c. case c of InsertConfig row \<Rightarrow> row)
           (gateway_calls (handleSaveSettings ex_first_save ''2024-02-02T00:00:00.000Z'' ''fresh''
              (Resolved_ok ())))) = [None]
   \<and> map_option activeSpacing
        (config (run_settings ex_first_save
           (handleSaveSettings ex_first_save ''2024-02-02T00:00:00.000Z'' ''fresh''
              (Resolved_ok ())))) = Some (Some [])"
  using first_save_null_row_empty_memory
    [where st = ex_first_save and now = "''2024-02-02T00:00:00.000Z''" and uuid = "''fresh''"
       and written = "Resolved_ok ()", OF _ _ refl]
  by (simp add: ex_first_save_def ex_settings_def trim_def js_whitespace_def)

text \<open>A blank name is refused before any gateway call.\<close>

lemma save_blank_name_refused:
  "trim (name st) = [] \<Longrightarrow>
   handleSaveSettings st now uuid written
     = [S_SetError (Some ''Please enter a name for the style guide.'')]"
  by (simp add: handleSaveSettings_def)

subsection \<open>Settings: a new version\<close>

lemma digit_char:
  assumes "d < 10"
  shows "is_digit (''0123456789'' ! d)" and "''0123456789'' ! d \<noteq> CHR ''.''"
    and "(of_char (''0123456789'' ! d) :: nat) - 48 = d"
proof -
  from assms consider "d = 0" | "d = 1" | "d = 2" | "d = 3" | "d = 4" | "d = 5" | "d = 6"
    | "d = 7" | "d = 8" | "d = 9" by atomize_elim arith
  then have "is_digit (''0123456789'' ! d) \<and> ''0123456789'' ! d \<noteq> CHR ''.''
      \<and> (of_char (''0123456789'' ! d) :: nat) - 48 = d"
    by cases (simp_all add: is_digit_def)
  then show "is_digit (''0123456789'' ! d)" and "''0123456789'' ! d \<noteq> CHR ''.''"
    and "(of_char (''0123456789'' ! d) :: nat) - 48 = d" by simp_all
qed

lemma decimal_nonempty: "decimal n \<noteq> []"
  by (subst decimal.simps) simp

lemma decimal_digits: "list_all is_digit (decimal n)"
proof (induction n rule: decimal.induct)
  case (1 n)
  show ?case
  proof (cases "n < 10")
    case True
    then show ?thesis by (subst decimal.simps) (simp add: digit_char)
  next
    case False
    with 1 show ?thesis by (subst decimal.simps) (simp add: digit_char)
  qed
qed

lemma decimal_no_dot: "CHR ''.'' \<notin> set (decimal n)"
proof (induction n rule: decimal.induct)
  case (1 n)
  show ?case
  proof (cases "n < 10")
    case True
    then show ?thesis using digit_char(2) [of n] by (subst decimal.simps) auto
  next
    case False
    with 1 show ?thesis using digit_char(2) [of "n mod 10"] by (subst decimal.simps) auto
  qed
qed

lemma decimal_value_snoc:
  "decimal_value (s @ [c]) = 10 * decimal_value s + ((of_char c :: nat) - 48)"
  by (simp add: decimal_value_def)

text \<open>Reading a printed number gives the number back.\<close>

lemma decimal_value_decimal: "decimal_value (decimal n) = n"
proof (induction n rule: decimal.induct)
  case (1 n)
  show ?case
  proof (cases "n < 10")
    case True
    then show ?thesis by (subst decimal.simps) (simp add: decimal_value_def digit_char)
  next
    case False
    with 1 have "decimal_value (decimal (n div 10)) = n div 10" by simp
    with False show ?thesis
      by (subst decimal.simps) (simp add: decimal_value_snoc digit_char)
  qed
qed

lemma split_dot_no_dot: "CHR ''.'' \<notin> set s \<Longrightarrow> split_dot s = [s]"
  by (induction s) auto

lemma split_dot_segment:
  "CHR ''.'' \<notin> set s \<Longrightarrow> split_dot (s @ CHR ''.'' # t) = s # split_dot t"
  by (induction s) auto

lemma js_Number_decimal: "n \<le> 2 ^ 53 \<Longrightarrow> js_Number (decimal n) = Some n"
  by (simp add: js_Number_def decimal_nonempty decimal_digits decimal_value_decimal)

lemma bump_patch_wellformed:
  assumes "a \<le> 2 ^ 53" and "b \<le> 2 ^ 53" and "c < 2 ^ 53"
  shows "bump_patch (decimal a @ ''.'' @ decimal b @ ''.'' @ decimal c)
       = Some (decimal a @ ''.'' @ decimal b @ ''.'' @ decimal (c + 1))"
proof -
  have s: "split_dot (decimal a @ ''.'' @ decimal b @ ''.'' @ decimal c)
         = [decimal a, decimal b, decimal c]"
    by (simp add: split_dot_segment split_dot_no_dot decimal_no_dot)
  have n: "those (map js_Number [decimal a, decimal b, decimal c]) = Some [a, b, c]"
    using assms by (simp add: js_Number_decimal)
  have p: "those (map js_toString [a, b, js_add c 1])
         = Some [decimal a, decimal b, decimal (c + 1)]"
    using assms by (simp add: js_toString_def js_add_exact_Suc)
  show ?thesis
    unfolding bump_patch_def s n using p by simp
qed

text \<open>What the three lines compute on some strings, well-formed and not.\<close>

lemma bump_patch_examples:
  "bump_patch ''1.0.0'' = Some ''1.0.1''"
  "bump_patch ''1.2.9'' = Some ''1.2.10''"
  "bump_patch ''01.02.09'' = Some ''1.2.10''"
  "bump_patch ''1.2.9.4'' = Some ''1.2.10.4''"
  "bump_patch ''1.0'' = Some ''1.0.NaN''"
  "bump_patch ''7'' = Some ''7..NaN''"
  by (simp_all add: bump_patch_def js_Number_def is_digit_def decimal_value_def
        js_toString_def js_add_def round_double_def decimal.simps)

text \<open>At \<open>2 ^ 53\<close> the patch segment is not incremented: \<open>2 ^ 53 + 1\<close> rounds back.\<close>

lemma bump_patch_saturates:
  "bump_patch ''1.0.9007199254740992'' = Some ''1.0.9007199254740992''"
  by (simp add: bump_patch_def js_Number_def is_digit_def decimal_value_def js_toString_def
        js_add_def round_double_def decimal.simps Let_def)

text \<open>After the effect that follows a change of the config, the form shows its version.\<close>

lemma sync_form_version:
  "config st = Some cfg \<Longrightarrow> version (sync_form st) = cfg_version cfg"
  by (simp add: sync_form_def)

text \<open>
  C7, as the code has it. A config exists; the text of changes is not blank; the version
  the page holds (the read-only copy of the config's version) is
  \<open>MAJOR.MINOR.PATCH\<close>, each segment a decimal numeral without leading zeros,
  \<open>MAJOR\<close> and \<open>MINOR\<close> at most \<open>2 ^ 53\<close> and \<open>PATCH\<close> below \<open>2 ^ 53\<close>; both
  gateway writes resolve without error. Then the handler returns; it inserts a version
  history row with the version \<open>MAJOR.MINOR.(PATCH + 1)\<close> and the current config as
  snapshot, then updates the config row to that version; and in memory the record heads
  the history, and the config and the form hold the new version.
\<close>

theorem createVersion_bumps_patch:
  assumes "config st = Some cfg" and "trim (newVersionChanges st) \<noteq> []"
    and "version st = decimal a @ ''.'' @ decimal b @ ''.'' @ decimal c"
    and "a \<le> 2 ^ 53" and "b \<le> 2 ^ 53" and "c < 2 ^ 53"
    and "newVersion = decimal a @ ''.'' @ decimal b @ ''.'' @ decimal (c + 1)"
    and "h = newVersionHistory st cfg newVersion now uuid"
  shows "case handleCreateNewVersion st now uuid (Resolved_ok ()) (Resolved_ok ()) of
           None \<Rightarrow> False
         | Some es \<Rightarrow>
             gateway_calls es =
               [InsertVersionHistory (versionRow st h now),
                UpdateConfigVersion (cfg_id cfg) newVersion now]
             \<and> vr_version (versionRow st h now) = newVersion
             \<and> vr_snapshot (versionRow st h now) = cfg
             \<and> versionHistory (run_settings st es) = h # versionHistory st
             \<and> vh_version h = newVersion
             \<and> vh_snapshot h = cfg
             \<and> config (run_settings st es)
                 = Some (cfg\<lparr>cfg_version := newVersion, cfg_updatedAt := now\<rparr>)
             \<and> version (run_settings st es) = newVersion"
proof -
  have b: "bump_patch (version st) = Some newVersion"
    using bump_patch_wellformed [OF assms(4,5,6)] assms(3,7) by simp
  have r: "vr_version (versionRow st h now) = newVersion"
    "vr_snapshot (versionRow st h now) = cfg"
    "vh_version h = newVersion" "vh_snapshot h = cfg"
    using assms(8) by (simp_all add: versionRow_def newVersionHistory_def)
  show ?thesis
    using assms(1,2,8) b r by (simp add: handleCreateNewVersion_def)
qed

text \<open>Witness for C7: scenario 6 of the spec, \<open>fix typo\<close> at version \<open>1.0.0\<close>.\<close>

theorem createVersion_bumps_patch_witness:
  "config ex_settings = Some ex_config \<and> trim (newVersionChanges ex_settings) \<noteq> []
   \<and> version ex_settings = decimal 1 @ ''.'' @ decimal 0 @ ''.'' @ decimal 0
   \<and> (case handleCreateNewVersion ex_settings ''2024-02-02T00:00:00.000Z'' ''fresh''
             (Resolved_ok ()) (Resolved_ok ()) of
         None \<Rightarrow> False
       | Some es \<Rightarrow>
           map (\<lambda>c. case c of InsertVersionHistory row \<Rightarrow> vr_version row
                            | UpdateConfigVersion i v t \<Rightarrow> v) (gateway_calls es)
             = [''1.0.1'', ''1.0.1'']
           \<and> map vh_version (versionHistory (run_settings ex_settings es)) = [''1.0.1'']
           \<and> map_option cfg_version (config (run_settings ex_settings es)) = Some ''1.0.1'')"
  using createVersion_bumps_patch
    [where st = ex_settings and cfg = ex_config and a = 1 and b = 0 and c = 0
       and now = "''2024-02-02T00:00:00.000Z''" and uuid = "''fresh''", OF _ _ _ _ _ _ refl refl]
  by (simp add: ex_settings_def ex_config_def trim_def js_whitespace_def decimal.simps
        newVersionHistory_def versionRow_def split: option.splits)

text \<open>
  C7 as the spec states it fails for a text of changes that is not empty but blank: a
  single space is refused before any gateway call, no record is created and the version
  stays \<open>1.0.0\<close>.
\<close>

theorem createVersion_bumps_patch_counterexample:
  "newVersionChanges ex_blank_changes \<noteq> []
   \<and> version ex_blank_changes = ''1.0.0''
   \<and> handleCreateNewVersion ex_blank_changes ''2024-02-02T00:00:00.000Z'' ''fresh''
        (Resolved_ok ()) (Resolved_ok ())
       = Some [S_SetError (Some ''Please enter changes for the new version.'')]"
  by (simp add: ex_blank_changes_def ex_settings_def handleCreateNewVersion_def trim_def
        js_whitespace_def)

text \<open>Scenario 5 of the spec: the empty text is refused in the same way.\<close>

lemma createVersion_blank_refused:
  "trim (newVersionChanges st) = [] \<Longrightarrow>
   handleCreateNewVersion st now uuid inserted updated
     = Some [S_SetError (Some ''Please enter changes for the new version.'')]"
  by (simp add: handleCreateNewVersion_def)

end
